theory Spec2Isabelle
  imports Main
begin

section \<open>JavaScript values as the handler sees them\<close>

text \<open>
  The login handler of \<^verbatim>\<open>server.js\<close> works on values that \<^verbatim>\<open>JSON.parse\<close> built:
  the document store held by lowdb and the request body left by the body parser.
  An object is the list of its own properties in enumeration order (keys distinct in a
  parsed object; \<open>map_of\<close> reads a key). A number is represented by the text that
  JavaScript's number-to-string conversion gives it: parsed JSON holds no NaN, the two
  zeros both print as \<open>0\<close>, and otherwise two numbers are \<^verbatim>\<open>===\<close> exactly when they
  print alike. The characters of a string stand for its code units.
  \<^verbatim>\<open>undefined\<close> is not a JSON value: a property read yields a \<open>json option\<close>,
  with \<open>None\<close> for \<^verbatim>\<open>undefined\<close>.
\<close>

datatype json =
    JNull
  | JBool bool
  | JNum string
  | JStr string
  | JArr "json list"
  | JObj "(string \<times> json) list"

datatype error = TypeError

record response =
  status :: nat
  body :: json

text \<open>
  \<^verbatim>\<open>u.phone\<close>, \<^verbatim>\<open>u.password\<close>, \<^verbatim>\<open>user.id\<close>: reading a property of \<^verbatim>\<open>null\<close> throws a
  TypeError; an object yields its own property or \<^verbatim>\<open>undefined\<close>; a string, number,
  boolean or array yields \<^verbatim>\<open>undefined\<close> for these three names, which are neither an
  index nor a built-in property.
\<close>

fun getprop :: "json \<Rightarrow> string \<Rightarrow> error + json option" where
  "getprop JNull k = Inl TypeError"
| "getprop (JObj kvs) k = Inr (map_of kvs k)"
| "getprop v k = Inr None"

text \<open>
  \<^verbatim>\<open>a === b\<close> between a value read from the store and a value read from the request
  body. Primitives compare by value and type, \<^verbatim>\<open>undefined === undefined\<close> holds, and
  an array or object is only equal to itself: the store and the body never share one.
\<close>

fun strict_eq :: "json option \<Rightarrow> json option \<Rightarrow> bool" where
  "strict_eq None None = True"
| "strict_eq (Some JNull) (Some JNull) = True"
| "strict_eq (Some (JBool a)) (Some (JBool b)) = (a = b)"
| "strict_eq (Some (JNum a)) (Some (JNum b)) = (a = b)"
| "strict_eq (Some (JStr a)) (Some (JStr b)) = (a = b)"
| "strict_eq a b = False"

text \<open>\<^verbatim>\<open>if (user)\<close>: the falsy values are \<^verbatim>\<open>null\<close>, \<^verbatim>\<open>false\<close>, zero and the empty string.\<close>

fun truthy :: "json \<Rightarrow> bool" where
  "truthy JNull = False"
| "truthy (JBool b) = b"
| "truthy (JNum n) = (n \<noteq> ''0'')"
| "truthy (JStr s) = (s \<noteq> [])"
| "truthy (JArr xs) = True"
| "truthy (JObj kvs) = True"

text \<open>
  The conversion that \<^verbatim>\<open>'mock-jwt-token-' + user.id\<close> applies to its right operand.
  An array is joined with commas, \<^verbatim>\<open>null\<close> elements printing as nothing. A plain object
  prints as \<^verbatim>\<open>[object Object]\<close> through the \<^verbatim>\<open>toString\<close> it inherits; when it has a
  property of its own named \<^verbatim>\<open>toString\<close> (a parsed value, so not callable) no method
  yields a primitive and the conversion throws a TypeError.
\<close>

fun str_of :: "json \<Rightarrow> error + string"
  and join :: "json list \<Rightarrow> error + string" where
  "str_of JNull = Inr ''null''"
| "str_of (JBool b) = Inr (if b then ''true'' else ''false'')"
| "str_of (JNum n) = Inr n"
| "str_of (JStr s) = Inr s"
| "str_of (JArr xs) = join xs"
| "str_of (JObj kvs) =
     (if map_of kvs ''toString'' = None then Inr ''[object Object]'' else Inl TypeError)"
| "join [] = Inr []"
| "join [x] = (if x = JNull then Inr [] else str_of x)"
| "join (x # y # ys) =
     (case (if x = JNull then Inr [] else str_of x) of
        Inl e \<Rightarrow> Inl e
      | Inr s \<Rightarrow> (case join (y # ys) of Inl e \<Rightarrow> Inl e | Inr t \<Rightarrow> Inr (s @ '','' @ t)))"

fun to_string :: "json option \<Rightarrow> error + string" where
  "to_string None = Inr ''undefined''"
| "to_string (Some v) = str_of v"

text \<open>Decimal index keys of an array or string, as property names.\<close>

definition digit_char :: "nat \<Rightarrow> char" where
  "digit_char d = char_of (48 + d)"

function show_nat :: "nat \<Rightarrow> string" where
  "show_nat n = (if n < 10 then [digit_char n] else show_nat (n div 10) @ [digit_char (n mod 10)])"
  by pat_completeness auto
termination
  by (relation "measure id") auto

text \<open>
  The own enumerable properties that \<^verbatim>\<open>{ password, ...userWithoutPassword } = user\<close>
  copies: the fields of an object, the elements of an array and the characters of a
  string under their indices, none for a number or a boolean.
\<close>

fun own_props :: "json \<Rightarrow> (string \<times> json) list" where
  "own_props (JObj kvs) = kvs"
| "own_props (JArr xs) = zip (map show_nat [0..<length xs]) xs"
| "own_props (JStr s) = zip (map show_nat [0..<length s]) (map (\<lambda>c. JStr [c]) s)"
| "own_props v = []"

definition without_password :: "json \<Rightarrow> error + json" where
  "without_password user =
     (if user = JNull then Inl TypeError
      else Inr (JObj (filter (\<lambda>(k, v). k \<noteq> ''password'') (own_props user))))"

section \<open>The login handler\<close>

text \<open>
  \<^verbatim>\<open>db.get('users').value()\<close>: the value under a top-level key of the store, \<^verbatim>\<open>undefined\<close>
  when the key is absent.
\<close>

fun db_get :: "json \<Rightarrow> string \<Rightarrow> json option" where
  "db_get (JObj kvs) k = map_of kvs k"
| "db_get v k = None"

text \<open>\<^verbatim>\<open>u => u.phone === phone && u.password === password\<close>\<close>

definition credentials_match :: "json option \<Rightarrow> json option \<Rightarrow> json \<Rightarrow> error + bool" where
  "credentials_match phone password u =
     (case getprop u ''phone'' of
        Inl e \<Rightarrow> Inl e
      | Inr p \<Rightarrow>
          if strict_eq p phone
          then (case getprop u ''password'' of
                  Inl e \<Rightarrow> Inl e
                | Inr w \<Rightarrow> Inr (strict_eq w password))
          else Inr False)"

text \<open>
  \<^verbatim>\<open>users.find(...)\<close>: the first element, in array order, on which the predicate holds;
  \<^verbatim>\<open>undefined\<close> when there is none; a throw of the predicate ends the scan.
\<close>

fun find_user :: "json option \<Rightarrow> json option \<Rightarrow> json list \<Rightarrow> error + json option" where
  "find_user phone password [] = Inr None"
| "find_user phone password (u # us) =
     (case credentials_match phone password u of
        Inl e \<Rightarrow> Inl e
      | Inr True \<Rightarrow> Inr (Some u)
      | Inr False \<Rightarrow> find_user phone password us)"

definition invalid_credentials :: response where
  "invalid_credentials =
     \<lparr>status = 401, body = JObj [(''message'', JStr ''Invalid credentials'')]\<rparr>"

text \<open>
  The handler of \<^verbatim>\<open>server.post('/api/v1/auth/login', ...)\<close>. The request body is the
  object the body parser left in \<^verbatim>\<open>req.body\<close>, given by its properties (the parser
  admits an object or an array, never \<^verbatim>\<open>null\<close>; an array has index properties only and
  reads like the empty object here). The result is
  what the handler sent, or the error it threw, together with the store it leaves.
  A response sent with \<^verbatim>\<open>res.json\<close> alone has status 200.
\<close>

definition login :: "json \<Rightarrow> (string \<times> json) list \<Rightarrow> (error + response) \<times> json" where
  "login store b =
     (let phone = map_of b ''phone'';
          password = map_of b ''password''
      in case db_get store ''users'' of
           Some (JArr users) \<Rightarrow>
             (case find_user phone password users of
                Inl e \<Rightarrow> (Inl e, store)
              | Inr None \<Rightarrow> (Inr invalid_credentials, store)
              | Inr (Some user) \<Rightarrow>
                  if truthy user
                  then (case without_password user of
                          Inl e \<Rightarrow> (Inl e, store)
                        | Inr userWithoutPassword \<Rightarrow>
                            (case getprop user ''id'' of
                               Inl e \<Rightarrow> (Inl e, store)
                             | Inr i \<Rightarrow>
                                 (case to_string i of
                                    Inl e \<Rightarrow> (Inl e, store)
                                  | Inr s \<Rightarrow>
                                      (Inr \<lparr>status = 200,
                                            body = JObj [(''token'', JStr (''mock-jwt-token-'' @ s)),
                                                         (''user'', userWithoutPassword)]\<rparr>,
                                       store))))
                  else (Inr invalid_credentials, store))
         | _ \<Rightarrow> (Inl TypeError, store))"

section \<open>Dispatch\<close>

text \<open>
  The application as \<^verbatim>\<open>server.js\<close> registers it, in this order: the default middlewares
  (line 6), the body parser (line 7), the login route (line 10), the rewriter (line 29)
  and the router (line 33). A request is given by its method (the text Node hands on, in
  upper case), its URL as \<^verbatim>\<open>req.url\<close> holds it, and its body as the body parser left it;
  a request whose body the parser refuses is answered by the parser and is not among them.
\<close>

record request =
  req_method :: string
  req_url :: string
  req_body :: "(string \<times> json) list"

text \<open>
  What the application sends: a JSON response of a handler or the error it threw, a
  status with no body, or a file of the public directory.
\<close>

datatype answer =
    Reply "error + response"
  | NoBody nat
  | File string

text \<open>
  \<^verbatim>\<open>jsonServer.defaults()\<close> is library code that is not part of the sources. Two of its
  middlewares answer requests themselves. Its CORS middleware ends every \<^verbatim>\<open>OPTIONS\<close>
  request with status 204 and no body. After it, the static file middleware answers a
  \<^verbatim>\<open>GET\<close> or \<^verbatim>\<open>HEAD\<close> whose URL names a file of the public directory with that file,
  and passes every other request on. The public directory is the parameter
  \<open>static\<close>, from a URL to the file it names.
\<close>

definition served :: "(string \<Rightarrow> string option) \<Rightarrow> request \<Rightarrow> string option" where
  "served static req =
     (if req_method req = ''GET'' \<or> req_method req = ''HEAD'' then static (req_url req) else None)"

definition to_lower :: "char \<Rightarrow> char" where
  "to_lower c =
     (let n = (of_char c :: nat) in if 65 \<le> n \<and> n \<le> 90 then char_of (n + 32) else c)"

text \<open>
  Modelled from the spec: \<^verbatim>\<open>jsonServer.rewriter\<close> is library code that is not part of
  the sources. The rule table is the one of \<^verbatim>\<open>server.js\<close>,
  \<^verbatim>\<open>{ '/api/v1/*': '/$1' }\<close>; by the spec the prefix \<^verbatim>\<open>/api/v1/\<close> is stripped
  and the request goes on under the unprefixed path. The pattern is matched against the
  URL without regard to letter case, and a URL without the prefix is left as it is.
\<close>

definition rewriter :: "string \<Rightarrow> string" where
  "rewriter u = (if map to_lower (take 8 u) = ''/api/v1/'' then ''/'' @ drop 8 u else u)"

text \<open>
  The application. An \<^verbatim>\<open>OPTIONS\<close> request and a request for a file of the public
  directory are answered by the default middlewares and go no further. Of the others, a
  POST that the login route takes is answered by the login handler; every other request
  has its URL rewritten and is handed to the router.

  How Express matches the URL of a request against the path of a route,
  \<^verbatim>\<open>'/api/v1/auth/login'\<close> here, is library code that is not part of the sources: it is the
  parameter \<open>route\<close>, from the path of the route and the URL to whether the route takes
  the request. The generic resource layer, \<^verbatim>\<open>jsonServer.router('db.json')\<close>, is library
  code too: it is the parameter \<open>router\<close>, any function from the store and a request
  to what it sends and the store it leaves.
\<close>

definition server ::
  "(string \<Rightarrow> string option) \<Rightarrow> (string \<Rightarrow> string \<Rightarrow> bool)
     \<Rightarrow> (json \<Rightarrow> request \<Rightarrow> answer \<times> json) \<Rightarrow> json \<Rightarrow> request \<Rightarrow> answer \<times> json" where
  "server static route router store req =
     (if req_method req = ''OPTIONS'' then (NoBody 204, store)
      else case served static req of
        Some f \<Rightarrow> (File f, store)
      | None \<Rightarrow>
          if req_method req = ''POST'' \<and> route ''/api/v1/auth/login'' (req_url req)
          then (case login store (req_body req) of (r, store') \<Rightarrow> (Reply r, store'))
          else router store (req\<lparr>req_url := rewriter (req_url req)\<rparr>))"

section \<open>Example data\<close>

text \<open>The store of the spec's example, with a second collection beside \<open>users\<close>.\<close>

definition alice :: json where
  "alice = JObj [(''id'', JStr ''1''), (''phone'', JStr ''555-0100''),
                 (''password'', JStr ''pw1''), (''name'', JStr ''A'')]"

definition example_store :: json where
  "example_store = JObj [(''users'', JArr [alice]), (''bookings'', JArr [])]"

text \<open>Three records, the last two with the same phone and password.\<close>

definition shared_users :: "json list" where
  "shared_users =
     [JObj [(''id'', JStr ''1''), (''phone'', JStr ''555-0100''), (''password'', JStr ''pw1'')],
      JObj [(''id'', JNum ''2''), (''phone'', JStr ''555-0199''), (''password'', JStr ''pw2''),
            (''role'', JStr ''expert'')],
      JObj [(''id'', JNum ''3''), (''phone'', JStr ''555-0199''), (''password'', JStr ''pw2'')]]"



definition one_file :: "string \<Rightarrow> string option" where
  "one_file u = (if u = ''/api/v1/users'' then Some ''public/api/v1/users'' else None)"


section \<open>Properties of the login handler\<close>

subsection \<open>The scan\<close>

lemma credentials_match_obj:
  "credentials_match p w (JObj kvs) =
     Inr (strict_eq (map_of kvs ''phone'') p \<and> strict_eq (map_of kvs ''password'') w)"
  by (simp add: credentials_match_def)

lemma credentials_match_notnull: "u \<noteq> JNull \<Longrightarrow> \<exists>b. credentials_match p w u = Inr b"
  by (cases u) (auto simp: credentials_match_def)

lemma strict_eq_undefined: "strict_eq (Some v) None = False"
  by (cases v) auto

lemma find_user_none:
  "\<forall>u \<in> set us. credentials_match p w u = Inr False \<Longrightarrow> find_user p w us = Inr None"
  by (induction us) auto

lemma find_user_Some:
  "find_user p w us = Inr (Some u) \<Longrightarrow> u \<in> set us \<and> credentials_match p w u = Inr True"
  by (induction us) (auto split: sum.splits bool.splits)

lemma find_user_None:
  "find_user p w us = Inr None \<Longrightarrow> \<forall>u \<in> set us. credentials_match p w u = Inr False"
  by (induction us) (auto split: sum.splits bool.splits)

lemma find_user_first:
  "\<forall>x \<in> set xs. credentials_match p w x = Inr False \<Longrightarrow> credentials_match p w u = Inr True
    \<Longrightarrow> find_user p w (xs @ u # ys) = Inr (Some u)"
  by (induction xs) auto

lemma find_user_total:
  "\<forall>u \<in> set us. u \<noteq> JNull \<Longrightarrow> \<exists>r. find_user p w us = Inr r"
proof (induction us)
  case Nil
  then show ?case by simp
next
  case (Cons u us)
  then obtain b where "credentials_match p w u = Inr b"
    using credentials_match_notnull [of u p w] by auto
  with Cons show ?case by (cases b) auto
qed

lemma map_of_filter_key:
  "map_of (filter (\<lambda>(k, v). k \<noteq> x) kvs) k = (if k = x then None else map_of kvs k)"
  by (induction kvs) auto

subsection \<open>The two branches\<close>

lemma login_found:
  assumes "db_get store ''users'' = Some (JArr users)"
    and "find_user (map_of b ''phone'') (map_of b ''password'') users = Inr (Some (JObj kvs))"
    and "to_string (map_of kvs ''id'') = Inr s"
  shows "login store b =
     (Inr \<lparr>status = 200,
           body = JObj [(''token'', JStr (''mock-jwt-token-'' @ s)),
                        (''user'', JObj (filter (\<lambda>(k, v). k \<noteq> ''password'') kvs))]\<rparr>, store)"
  using assms by (simp add: login_def without_password_def)

lemma login_not_found:
  assumes "db_get store ''users'' = Some (JArr users)"
    and "find_user (map_of b ''phone'') (map_of b ''password'') users = Inr None"
  shows "login store b = (Inr invalid_credentials, store)"
  using assms by (simp add: login_def)

lemma example_users: "db_get example_store ''users'' = Some (JArr [alice])"
  by (simp add: example_store_def)

text \<open>The two calls of the spec's example, evaluated.\<close>

lemma login_example_accepted:
  "fst (login example_store [(''phone'', JStr ''555-0100''), (''password'', JStr ''pw1'')]) =
     Inr \<lparr>status = 200,
          body = JObj [(''token'', JStr ''mock-jwt-token-1''),
                       (''user'', JObj [(''id'', JStr ''1''), (''phone'', JStr ''555-0100''),
                                        (''name'', JStr ''A'')])]\<rparr>"
  by (simp add: login_def example_store_def alice_def credentials_match_def without_password_def)

lemma login_example_rejected:
  "fst (login example_store [(''phone'', JStr ''555-0100''), (''password'', JStr ''wrong'')]) =
     Inr \<lparr>status = 401, body = JObj [(''message'', JStr ''Invalid credentials'')]\<rparr>"
  by (simp add: login_def example_store_def alice_def credentials_match_def invalid_credentials_def)

section \<open>Claims about the login handler\<close>

text \<open>
  C7: a login request leaves the document store as it found it, whether the credentials
  match or not and also when the handler throws: the handler only reads the store.
\<close>

theorem login_store_unchanged: "snd (login store b) = store"
  by (simp add: login_def Let_def split: option.splits json.splits sum.splits if_splits)

theorem login_store_unchanged_witness:
  "snd (login example_store [(''phone'', JStr ''555-0100''), (''password'', JStr ''pw1'')])
     = example_store"
  using login_store_unchanged [of example_store
      "[(''phone'', JStr ''555-0100''), (''password'', JStr ''pw1'')]"]
  by simp

text \<open>
  C4: when the \<open>users\<close> array holds no record on which the handler's predicate is true
  (it is false on every record), the response is 401 with the body
  \<^verbatim>\<open>{ "message": "Invalid credentials" }\<close>.
\<close>

theorem login_no_match_401:
  assumes "db_get store ''users'' = Some (JArr users)"
    and "\<forall>u \<in> set users.
           credentials_match (map_of b ''phone'') (map_of b ''password'') u = Inr False"
  shows "login store b =
     (Inr \<lparr>status = 401, body = JObj [(''message'', JStr ''Invalid credentials'')]\<rparr>, store)"
proof -
  have "find_user (map_of b ''phone'') (map_of b ''password'') users = Inr None"
    using assms(2) by (rule find_user_none)
  with assms(1) show ?thesis
    by (simp add: login_not_found invalid_credentials_def)
qed

theorem login_no_match_401_witness:
  "login example_store [(''phone'', JStr ''555-0100''), (''password'', JStr ''wrong'')] =
     (Inr \<lparr>status = 401, body = JObj [(''message'', JStr ''Invalid credentials'')]\<rparr>,
      example_store)"
proof -
  let ?b = "[(''phone'', JStr ''555-0100''), (''password'', JStr ''wrong'')]"
  have "\<forall>u \<in> set [alice].
          credentials_match (map_of ?b ''phone'') (map_of ?b ''password'') u = Inr False"
    by (simp add: alice_def credentials_match_def)
  from login_no_match_401 [OF example_users this] show ?thesis .
qed

text \<open>
  C1, as amended: when \<open>users\<close> is an array of objects whose \<open>id\<close> converts to a
  string, the handler answers every body, with 200 when some record's \<open>phone\<close> and
  \<open>password\<close> are \<^verbatim>\<open>===\<close> to the body's (a field absent on both sides is equal, an
  array or object value never is) and with 401 otherwise.
\<close>

theorem login_200_iff_match:
  assumes "db_get store ''users'' = Some (JArr users)"
    and "\<forall>u \<in> set users. \<exists>kvs s. u = JObj kvs \<and> to_string (map_of kvs ''id'') = Inr s"
  shows "\<exists>r. login store b = (Inr r, store) \<and>
     status r =
       (if \<exists>kvs. JObj kvs \<in> set users
              \<and> strict_eq (map_of kvs ''phone'') (map_of b ''phone'')
              \<and> strict_eq (map_of kvs ''password'') (map_of b ''password'')
        then 200 else 401)"
proof -
  let ?p = "map_of b ''phone''" and ?w = "map_of b ''password''"
  have "\<forall>u \<in> set users. u \<noteq> JNull" using assms(2) by auto
  then obtain f where f: "find_user ?p ?w users = Inr f"
    using find_user_total by blast
  show ?thesis
  proof (cases f)
    case None
    with f have "\<forall>u \<in> set users. credentials_match ?p ?w u = Inr False"
      using find_user_None by blast
    then have "\<not> (\<exists>kvs. JObj kvs \<in> set users \<and> strict_eq (map_of kvs ''phone'') ?p
        \<and> strict_eq (map_of kvs ''password'') ?w)"
      by (auto simp: credentials_match_obj)
    moreover have "login store b = (Inr invalid_credentials, store)"
      using assms(1) f None by (simp add: login_not_found)
    ultimately show ?thesis by (simp add: invalid_credentials_def)
  next
    case (Some u)
    with f have u: "u \<in> set users" "credentials_match ?p ?w u = Inr True"
      using find_user_Some by blast+
    from u(1) assms(2) obtain kvs s where k: "u = JObj kvs" "to_string (map_of kvs ''id'') = Inr s"
      by blast
    have "\<exists>kvs. JObj kvs \<in> set users \<and> strict_eq (map_of kvs ''phone'') ?p
        \<and> strict_eq (map_of kvs ''password'') ?w"
      using u k(1) by (auto simp: credentials_match_obj)
    moreover have "\<exists>r. login store b = (Inr r, store) \<and> status r = 200"
      using login_found [OF assms(1) _ k(2), of b] f Some k(1) by simp
    ultimately show ?thesis by auto
  qed
qed

theorem login_200_iff_match_witness:
  "(\<exists>r. login example_store [(''phone'', JStr ''555-0100''), (''password'', JStr ''pw1'')]
          = (Inr r, example_store) \<and> status r = 200)
   \<and> (\<exists>r. login example_store [(''phone'', JStr ''555-0100''), (''password'', JStr ''PW1'')]
          = (Inr r, example_store) \<and> status r = 401)"
proof -
  have ids: "\<forall>u \<in> set [alice]. \<exists>kvs s. u = JObj kvs \<and> to_string (map_of kvs ''id'') = Inr s"
    by (simp add: alice_def)
  show ?thesis
    using login_200_iff_match [OF example_users ids,
        of "[(''phone'', JStr ''555-0100''), (''password'', JStr ''pw1'')]"]
      login_200_iff_match [OF example_users ids,
        of "[(''phone'', JStr ''555-0100''), (''password'', JStr ''PW1'')]"]
    by (simp add: alice_def)
qed

text \<open>
  C1 as stated fails: the only record has a phone and no \<open>password\<close> field, the body
  has the same phone and no \<open>password\<close> either, and the answer is 200. No record has a
  password equal to one of the body, since neither has a password.
\<close>

theorem login_iff_counterexample:
  "login (JObj [(''users'', JArr [JObj [(''id'', JStr ''7''), (''phone'', JStr ''555-0100''),
                                        (''name'', JStr ''B'')]])])
         [(''phone'', JStr ''555-0100'')] =
     (Inr \<lparr>status = 200,
           body = JObj [(''token'', JStr ''mock-jwt-token-7''),
                        (''user'', JObj [(''id'', JStr ''7''), (''phone'', JStr ''555-0100''),
                                         (''name'', JStr ''B'')])]\<rparr>,
      JObj [(''users'', JArr [JObj [(''id'', JStr ''7''), (''phone'', JStr ''555-0100''),
                                    (''name'', JStr ''B'')]])])
   \<and> map_of [(''id'', JStr ''7''), (''phone'', JStr ''555-0100''), (''name'', JStr ''B'')] ''password''
       = None
   \<and> map_of [(''phone'', JStr ''555-0100'')] ''password'' = None"
  by (simp add: login_def credentials_match_def without_password_def)

text \<open>
  C2: in every 200 response the \<open>user\<close> object is made of the own properties of the
  record the scan found (for a record object, its fields) with \<open>password\<close> left out:
  it has no \<open>password\<close> field, and every other field has the value it has in the
  record, whatever fields the record carries.
\<close>

theorem login_user_without_password:
  assumes "login store b = (Inr r, store')" and "status r = 200"
  shows "\<exists>users u t fields.
      db_get store ''users'' = Some (JArr users)
      \<and> find_user (map_of b ''phone'') (map_of b ''password'') users = Inr (Some u)
      \<and> body r = JObj [(''token'', t), (''user'', JObj fields)]
      \<and> fields = filter (\<lambda>(k, v). k \<noteq> ''password'') (own_props u)
      \<and> map_of fields ''password'' = None
      \<and> (\<forall>k. k \<noteq> ''password'' \<longrightarrow> map_of fields k = map_of (own_props u) k)"
  using assms
  by (auto simp: login_def Let_def without_password_def invalid_credentials_def map_of_filter_key
      split: option.splits json.splits sum.splits if_splits)

theorem login_user_without_password_witness:
  "\<exists>t. fst (login example_store [(''phone'', JStr ''555-0100''), (''password'', JStr ''pw1'')]) =
     Inr \<lparr>status = 200,
          body = JObj [(''token'', t),
                       (''user'', JObj [(''id'', JStr ''1''), (''phone'', JStr ''555-0100''),
                                        (''name'', JStr ''A'')])]\<rparr>"
proof -
  let ?b = "[(''phone'', JStr ''555-0100''), (''password'', JStr ''pw1'')]"
  obtain r where r: "login example_store ?b = (Inr r, example_store)" "status r = 200"
    by (simp add: login_def example_store_def alice_def credentials_match_def without_password_def)
  from login_user_without_password [OF r] obtain users u t fields where
    f: "db_get example_store ''users'' = Some (JArr users)"
      "find_user (map_of ?b ''phone'') (map_of ?b ''password'') users = Inr (Some u)"
      "body r = JObj [(''token'', t), (''user'', JObj fields)]"
      "fields = filter (\<lambda>(k, v). k \<noteq> ''password'') (own_props u)"
    by blast
  from f(1) have "users = [alice]" by (simp add: example_store_def)
  with f(2) have "u = alice" by (simp add: alice_def credentials_match_def)
  with f(4) have "fields = [(''id'', JStr ''1''), (''phone'', JStr ''555-0100''), (''name'', JStr ''A'')]"
    by (simp add: alice_def)
  with f(3) r show ?thesis by (cases r) auto
qed

text \<open>
  C3: in every 200 response the token is the text \<^verbatim>\<open>mock-jwt-token-\<close> followed by the
  \<open>id\<close> of the record the scan found, as JavaScript's \<^verbatim>\<open>+\<close> renders it (a string \<open>id\<close>
  as it is). What the handler sends is a function of the \<open>users\<close> collection and of the
  body's \<open>phone\<close> and \<open>password\<close> alone: the rest of the store and of the body, and
  nothing else, such as a clock or a random source, has no part in it.
\<close>

theorem login_token:
  "(\<forall>r. fst (login store b) = Inr r \<and> status r = 200 \<longrightarrow>
      (\<exists>users u i s usr.
          db_get store ''users'' = Some (JArr users)
          \<and> find_user (map_of b ''phone'') (map_of b ''password'') users = Inr (Some u)
          \<and> getprop u ''id'' = Inr i \<and> to_string i = Inr s
          \<and> body r = JObj [(''token'', JStr (''mock-jwt-token-'' @ s)), (''user'', usr)]))
   \<and> (db_get store' ''users'' = db_get store ''users''
        \<and> map_of b' ''phone'' = map_of b ''phone''
        \<and> map_of b' ''password'' = map_of b ''password''
      \<longrightarrow> fst (login store' b') = fst (login store b))"
proof
  show "\<forall>r. fst (login store b) = Inr r \<and> status r = 200 \<longrightarrow>
      (\<exists>users u i s usr.
          db_get store ''users'' = Some (JArr users)
          \<and> find_user (map_of b ''phone'') (map_of b ''password'') users = Inr (Some u)
          \<and> getprop u ''id'' = Inr i \<and> to_string i = Inr s
          \<and> body r = JObj [(''token'', JStr (''mock-jwt-token-'' @ s)), (''user'', usr)])"
    by (auto simp: login_def Let_def invalid_credentials_def
        split: option.splits json.splits sum.splits if_splits)
  show "db_get store' ''users'' = db_get store ''users''
        \<and> map_of b' ''phone'' = map_of b ''phone''
        \<and> map_of b' ''password'' = map_of b ''password''
      \<longrightarrow> fst (login store' b') = fst (login store b)"
    by (auto simp: login_def Let_def split: option.splits json.splits sum.splits if_splits)
qed

theorem login_token_witness:
  "(\<exists>usr. fst (login example_store [(''phone'', JStr ''555-0100''), (''password'', JStr ''pw1'')]) =
      Inr \<lparr>status = 200, body = JObj [(''token'', JStr ''mock-jwt-token-1''), (''user'', usr)]\<rparr>)
   \<and> fst (login (JObj [(''users'', JArr [alice])])
            [(''remember'', JBool True), (''phone'', JStr ''555-0100''), (''password'', JStr ''pw1'')])
     = fst (login example_store [(''phone'', JStr ''555-0100''), (''password'', JStr ''pw1'')])"
proof -
  let ?b = "[(''phone'', JStr ''555-0100''), (''password'', JStr ''pw1'')]"
  let ?b' = "[(''remember'', JBool True), (''phone'', JStr ''555-0100''), (''password'', JStr ''pw1'')]"
  note t = login_token [of example_store ?b "JObj [(''users'', JArr [alice])]" ?b']
  obtain r where r: "fst (login example_store ?b) = Inr r" "status r = 200"
    by (simp add: login_def example_store_def alice_def credentials_match_def without_password_def)
  with t obtain users u i s usr where
    f: "db_get example_store ''users'' = Some (JArr users)"
      "find_user (map_of ?b ''phone'') (map_of ?b ''password'') users = Inr (Some u)"
      "getprop u ''id'' = Inr i" "to_string i = Inr s"
      "body r = JObj [(''token'', JStr (''mock-jwt-token-'' @ s)), (''user'', usr)]"
    by blast
  from f(1) have "users = [alice]" by (simp add: example_store_def)
  with f(2) have "u = alice" by (simp add: alice_def credentials_match_def)
  with f(3,4) have "s = ''1''" by (auto simp: alice_def)
  with f(5) r have "\<exists>usr. fst (login example_store ?b) =
      Inr \<lparr>status = 200, body = JObj [(''token'', JStr ''mock-jwt-token-1''), (''user'', usr)]\<rparr>"
    by (cases r) auto
  moreover have "fst (login (JObj [(''users'', JArr [alice])]) ?b') = fst (login example_store ?b)"
    using t by (simp add: example_store_def)
  ultimately show ?thesis by blast
qed

text \<open>
  C8: when several records of \<open>users\<close> match, the response is built from the first of
  them in array order: the predicate is false on the records before it, and whatever
  follows it, other matching records included, plays no part. The token carries its
  \<open>id\<close> and the \<open>user\<close> object its fields.
\<close>

theorem login_first_match:
  assumes "db_get store ''users'' = Some (JArr (xs @ JObj kvs # ys))"
    and "\<forall>x \<in> set xs.
           credentials_match (map_of b ''phone'') (map_of b ''password'') x = Inr False"
    and "credentials_match (map_of b ''phone'') (map_of b ''password'') (JObj kvs) = Inr True"
    and "to_string (map_of kvs ''id'') = Inr s"
  shows "login store b =
     (Inr \<lparr>status = 200,
           body = JObj [(''token'', JStr (''mock-jwt-token-'' @ s)),
                        (''user'', JObj (filter (\<lambda>(k, v). k \<noteq> ''password'') kvs))]\<rparr>, store)"
  using login_found [OF assms(1) find_user_first [OF assms(2,3)] assms(4)] .

theorem login_first_match_witness:
  "login (JObj [(''users'', JArr shared_users)])
         [(''phone'', JStr ''555-0199''), (''password'', JStr ''pw2'')] =
     (Inr \<lparr>status = 200,
           body = JObj [(''token'', JStr ''mock-jwt-token-2''),
                        (''user'', JObj [(''id'', JNum ''2''), (''phone'', JStr ''555-0199''),
                                         (''role'', JStr ''expert'')])]\<rparr>,
      JObj [(''users'', JArr shared_users)])
   \<and> credentials_match (Some (JStr ''555-0199'')) (Some (JStr ''pw2'')) (last shared_users)
       = Inr True"
proof -
  let ?b = "[(''phone'', JStr ''555-0199''), (''password'', JStr ''pw2'')]"
  let ?xs = "[JObj [(''id'', JStr ''1''), (''phone'', JStr ''555-0100''), (''password'', JStr ''pw1'')]]"
  let ?kvs = "[(''id'', JNum ''2''), (''phone'', JStr ''555-0199''), (''password'', JStr ''pw2''),
               (''role'', JStr ''expert'')]"
  let ?ys = "[JObj [(''id'', JNum ''3''), (''phone'', JStr ''555-0199''), (''password'', JStr ''pw2'')]]"
  have users: "db_get (JObj [(''users'', JArr shared_users)]) ''users''
      = Some (JArr (?xs @ JObj ?kvs # ?ys))"
    by (simp add: shared_users_def)
  have before: "\<forall>x \<in> set ?xs.
      credentials_match (map_of ?b ''phone'') (map_of ?b ''password'') x = Inr False"
    by (simp add: credentials_match_def)
  have first: "credentials_match (map_of ?b ''phone'') (map_of ?b ''password'') (JObj ?kvs) = Inr True"
    by (simp add: credentials_match_def)
  have later: "credentials_match (Some (JStr ''555-0199'')) (Some (JStr ''pw2'')) (last shared_users)
      = Inr True"
    by (simp add: shared_users_def credentials_match_def)
  have id: "to_string (map_of ?kvs ''id'') = Inr ''2''"
    by simp
  from login_first_match [OF users before first id] later show ?thesis
    by simp
qed

text \<open>
  C5, as amended: when \<open>users\<close> is an array of objects each of which has every one of
  the two fields \<open>phone\<close> and \<open>password\<close> that the body lacks, a body without
  \<open>phone\<close> or without \<open>password\<close> matches no record and is answered with 401.
\<close>

theorem login_missing_field_401:
  assumes "db_get store ''users'' = Some (JArr users)"
    and "map_of b ''phone'' = None \<or> map_of b ''password'' = None"
    and "\<forall>u \<in> set users. \<exists>kvs. u = JObj kvs
           \<and> (map_of b ''phone'' = None \<longrightarrow> map_of kvs ''phone'' \<noteq> None)
           \<and> (map_of b ''password'' = None \<longrightarrow> map_of kvs ''password'' \<noteq> None)"
  shows "login store b =
     (Inr \<lparr>status = 401, body = JObj [(''message'', JStr ''Invalid credentials'')]\<rparr>, store)"
proof -
  have "\<forall>u \<in> set users.
          credentials_match (map_of b ''phone'') (map_of b ''password'') u = Inr False"
  proof
    fix u assume "u \<in> set users"
    with assms(3) obtain kvs where k: "u = JObj kvs"
      "map_of b ''phone'' = None \<longrightarrow> map_of kvs ''phone'' \<noteq> None"
      "map_of b ''password'' = None \<longrightarrow> map_of kvs ''password'' \<noteq> None"
      by blast
    from assms(2) k(2,3) show
      "credentials_match (map_of b ''phone'') (map_of b ''password'') u = Inr False"
      unfolding k(1) credentials_match_obj by (auto simp: strict_eq_undefined)
  qed
  then have "find_user (map_of b ''phone'') (map_of b ''password'') users = Inr None"
    by (rule find_user_none)
  with assms(1) show ?thesis
    by (simp add: login_not_found invalid_credentials_def)
qed

theorem login_missing_field_401_witness:
  "login example_store [(''phone'', JStr ''555-0100'')] =
     (Inr \<lparr>status = 401, body = JObj [(''message'', JStr ''Invalid credentials'')]\<rparr>,
      example_store)"
proof -
  let ?b = "[(''phone'', JStr ''555-0100'')]"
  have missing: "map_of ?b ''phone'' = None \<or> map_of ?b ''password'' = None"
    by simp
  have fields: "\<forall>u \<in> set [alice]. \<exists>kvs. u = JObj kvs
           \<and> (map_of ?b ''phone'' = None \<longrightarrow> map_of kvs ''phone'' \<noteq> None)
           \<and> (map_of ?b ''password'' = None \<longrightarrow> map_of kvs ''password'' \<noteq> None)"
    by (simp add: alice_def)
  from login_missing_field_401 [OF example_users missing fields] show ?thesis .
qed

text \<open>
  C5 as stated fails: the body is empty, so it lacks both fields; the record has neither
  field; both comparisons are \<^verbatim>\<open>undefined === undefined\<close> and the answer is 200.
\<close>

theorem login_missing_field_counterexample:
  "login (JObj [(''users'', JArr [JObj [(''id'', JStr ''9''), (''name'', JStr ''C'')]])]) [] =
     (Inr \<lparr>status = 200,
           body = JObj [(''token'', JStr ''mock-jwt-token-9''),
                        (''user'', JObj [(''id'', JStr ''9''), (''name'', JStr ''C'')])]\<rparr>,
      JObj [(''users'', JArr [JObj [(''id'', JStr ''9''), (''name'', JStr ''C'')]])])"
  by (simp add: login_def credentials_match_def without_password_def)

text \<open>
  C9, as amended: when \<open>users\<close> is an array none of whose entries is \<^verbatim>\<open>null\<close> and the
  \<open>id\<close> of each converts to a string, the handler does not throw: it answers every
  body, with 200 or with 401. An empty array is answered with 401.
\<close>

theorem login_never_throws:
  assumes "db_get store ''users'' = Some (JArr users)"
    and "\<forall>u \<in> set users. \<exists>i s. getprop u ''id'' = Inr i \<and> to_string i = Inr s"
  shows "(\<exists>r. login store b = (Inr r, store) \<and> (status r = 200 \<or> status r = 401))
     \<and> (users = [] \<longrightarrow> login store b =
          (Inr \<lparr>status = 401, body = JObj [(''message'', JStr ''Invalid credentials'')]\<rparr>, store))"
proof
  let ?p = "map_of b ''phone''" and ?w = "map_of b ''password''"
  have "\<forall>u \<in> set users. u \<noteq> JNull" using assms(2) by auto
  then obtain f where f: "find_user ?p ?w users = Inr f"
    using find_user_total by blast
  show "\<exists>r. login store b = (Inr r, store) \<and> (status r = 200 \<or> status r = 401)"
  proof (cases f)
    case None
    with assms(1) f show ?thesis
      by (simp add: login_not_found invalid_credentials_def)
  next
    case (Some u)
    with f have "u \<in> set users" using find_user_Some by blast
    with assms(2) obtain i s where "getprop u ''id'' = Inr i" "to_string i = Inr s" by blast
    with assms(1) f Some show ?thesis
      by (cases u) (simp_all add: login_def without_password_def invalid_credentials_def)
  qed
  show "users = [] \<longrightarrow> login store b =
          (Inr \<lparr>status = 401, body = JObj [(''message'', JStr ''Invalid credentials'')]\<rparr>, store)"
    using assms(1) by (simp add: login_def invalid_credentials_def)
qed

theorem login_never_throws_witness:
  "(\<exists>r. login example_store [(''phone'', JArr []), (''password'', JNull)] = (Inr r, example_store)
        \<and> (status r = 200 \<or> status r = 401))
   \<and> login (JObj [(''users'', JArr [])]) [(''phone'', JStr ''555-0100''), (''password'', JStr ''pw1'')]
     = (Inr \<lparr>status = 401, body = JObj [(''message'', JStr ''Invalid credentials'')]\<rparr>,
        JObj [(''users'', JArr [])])"
proof -
  have ids: "\<forall>u \<in> set [alice]. \<exists>i s. getprop u ''id'' = Inr i \<and> to_string i = Inr s"
    by (simp add: alice_def)
  have empty: "db_get (JObj [(''users'', JArr [])]) ''users'' = Some (JArr [])"
    by simp
  have none: "\<forall>u \<in> set []. \<exists>i s. getprop u ''id'' = Inr i \<and> to_string i = Inr s"
    by simp
  show ?thesis
    using login_never_throws [OF example_users ids, of "[(''phone'', JArr []), (''password'', JNull)]"]
      login_never_throws [OF empty none,
        of "[(''phone'', JStr ''555-0100''), (''password'', JStr ''pw1'')]"]
    by simp
qed

text \<open>
  C9 as stated fails: \<open>users\<close> is bound to an array, its one entry is \<^verbatim>\<open>null\<close>, and
  reading \<^verbatim>\<open>u.phone\<close> throws before any branch is reached.
\<close>

theorem login_throws_counterexample:
  "login (JObj [(''users'', JArr [JNull])])
         [(''phone'', JStr ''555-0100''), (''password'', JStr ''pw1'')] =
     (Inl TypeError, JObj [(''users'', JArr [JNull])])"
  by (simp add: login_def credentials_match_def)

text \<open>
  The handler also throws on a record whose credentials match and whose \<open>id\<close> is an
  object with a \<open>toString\<close> field of its own: building the token fails.
\<close>

lemma login_throws_on_id:
  "login (JObj [(''users'', JArr [JObj [(''id'', JObj [(''toString'', JStr ''x'')]),
                                        (''phone'', JStr ''555-0100''),
                                        (''password'', JStr ''pw1'')]])])
         [(''phone'', JStr ''555-0100''), (''password'', JStr ''pw1'')] =
     (Inl TypeError,
      JObj [(''users'', JArr [JObj [(''id'', JObj [(''toString'', JStr ''x'')]),
                                    (''phone'', JStr ''555-0100''),
                                    (''password'', JStr ''pw1'')]])])"
  by (simp add: login_def credentials_match_def without_password_def)

text \<open>Without a \<open>users\<close> array there is nothing to scan, and the handler throws.\<close>

lemma login_throws_without_users:
  "login (JObj [(''bookings'', JArr [])]) b = (Inl TypeError, JObj [(''bookings'', JArr [])])"
  by (simp add: login_def)

section \<open>Claims about the dispatch\<close>

subsection \<open>Requests that the default middlewares answer\<close>

lemma server_options:
  "req_method req = ''OPTIONS'' \<Longrightarrow> server static route router store req = (NoBody 204, store)"
  by (simp add: server_def)

lemma server_static_file:
  "server one_file route router store
      \<lparr>req_method = ''GET'', req_url = ''/api/v1/users'', req_body = []\<rparr>
     = (File ''public/api/v1/users'', store)"
  by (simp add: server_def served_def one_file_def)



subsection \<open>The rewrite\<close>




subsection \<open>The method of the login route\<close>




end
